theory Spec2Isabelle
  imports Main
begin

section \<open>Platform parameters\<close>

text \<open>
  The headers (ngx_config.h, ngx_palloc.h, ngx_list.h) are not among the sources, so the
  structure sizes, the alignment constants, the ceiling NGX_MAX_ALLOC_FROM_POOL and the
  width of \<open>size_t\<close> are parameters of the model.  \<open>lp64\<close> is the usual 64-bit Unix
  instance (page size 4096), used for concrete evaluation.
\<close>

record platform =
  size_bits :: nat
  NGX_ALIGNMENT :: nat
  NGX_POOL_ALIGNMENT :: nat
  NGX_MAX_ALLOC_FROM_POOL :: nat
  sizeof_pool_t :: nat
  sizeof_pool_data_t :: nat
  sizeof_pool_large_t :: nat
  sizeof_pool_cleanup_t :: nat
  sizeof_array_t :: nat
  sizeof_list_t :: nat
  sizeof_list_part_t :: nat

definition lp64 :: platform where
  "lp64 = \<lparr> size_bits = 64, NGX_ALIGNMENT = 8, NGX_POOL_ALIGNMENT = 16,
            NGX_MAX_ALLOC_FROM_POOL = 4095, sizeof_pool_t = 80, sizeof_pool_data_t = 32,
            sizeof_pool_large_t = 16, sizeof_pool_cleanup_t = 24, sizeof_array_t = 40,
            sizeof_list_t = 56, sizeof_list_part_t = 24 \<rparr>"

text \<open>Arithmetic in \<open>size_t\<close> / \<open>ngx_uint_t\<close>: results are reduced modulo \<open>2 ^ size_bits\<close>.\<close>

definition size_t_sub :: "platform \<Rightarrow> nat \<Rightarrow> nat \<Rightarrow> nat" where
  "size_t_sub L a b = nat ((int a - int b) mod 2 ^ size_bits L)"

definition size_t_mul :: "platform \<Rightarrow> nat \<Rightarrow> nat \<Rightarrow> nat" where
  "size_t_mul L a b = (a * b) mod 2 ^ size_bits L"

definition size_t_add :: "platform \<Rightarrow> nat \<Rightarrow> nat \<Rightarrow> nat" where
  "size_t_add L a b = (a + b) mod 2 ^ size_bits L"

definition ngx_align_ptr :: "nat \<Rightarrow> nat \<Rightarrow> nat" where
  \<comment> \<open>Modelled from the spec: the macro of ngx_config.h is missing; it rounds the address
      up to the alignment boundary (for a power of two \<open>a\<close> the mask computation
      \<open>(p + (a - 1)) & ~(a - 1)\<close> is this value).\<close>
  "ngx_align_ptr p a = ((p + (a - 1)) div a) * a"


section \<open>The raw allocator and the observable effects\<close>

datatype event =
    Raw_malloc nat nat
  | Raw_memalign nat nat nat
  | Raw_free nat
  | Cleanup_run nat "nat option"

record world =
  heap_next :: nat
  heap_limit :: nat
  trace :: "event list"
  mem :: "nat \<Rightarrow> nat"

definition malloc :: "nat \<Rightarrow> world \<Rightarrow> nat option \<times> world" where
  \<comment> \<open>Modelled from the spec: RawAllocator.allocate (libc, external).  A bump allocator
      over the addresses below \<open>heap_limit\<close>; every call takes at least one byte and
      fails once the space is exhausted.\<close>
  "malloc n w =
     (let p = heap_next w in
      if p + max 1 n \<le> heap_limit w
      then (Some p, w\<lparr>heap_next := p + max 1 n, trace := trace w @ [Raw_malloc n p]\<rparr>)
      else (None, w))"

definition posix_memalign :: "nat \<Rightarrow> nat \<Rightarrow> world \<Rightarrow> nat option \<times> world" where
  \<comment> \<open>Modelled from the spec: RawAllocator.alignedAllocate (libc, external).\<close>
  "posix_memalign a n w =
     (let p = ngx_align_ptr (heap_next w) a in
      if 0 < a \<and> p + max 1 n \<le> heap_limit w
      then (Some p, w\<lparr>heap_next := p + max 1 n, trace := trace w @ [Raw_memalign a n p]\<rparr>)
      else (None, w))"

definition ngx_free :: "nat option \<Rightarrow> world \<Rightarrow> world" where
  \<comment> \<open>Modelled from the spec: RawAllocator.free (libc, external); \<open>free(NULL)\<close> does
      nothing.  Freed memory is never handed out again by this allocator.\<close>
  "ngx_free p w = (case p of None \<Rightarrow> w | Some a \<Rightarrow> w\<lparr>trace := trace w @ [Raw_free a]\<rparr>)"

definition ngx_alloc :: "nat \<Rightarrow> world \<Rightarrow> nat option \<times> world" where
  "ngx_alloc n w = malloc n w"

definition ngx_memalign :: "nat \<Rightarrow> nat \<Rightarrow> world \<Rightarrow> nat option \<times> world" where
  "ngx_memalign a n w = posix_memalign a n w"

definition ngx_memcpy :: "nat \<Rightarrow> nat \<Rightarrow> nat \<Rightarrow> (nat \<Rightarrow> nat) \<Rightarrow> (nat \<Rightarrow> nat)" where
  \<comment> \<open>Modelled from the spec: \<open>memcpy(dst, src, n)\<close> on the byte store.\<close>
  "ngx_memcpy dst src n m = (\<lambda>a. if dst \<le> a \<and> a < dst + n then m (src + (a - dst)) else m a)"


section \<open>The pool\<close>

text \<open>
  A block is the \<open>ngx_pool_data_t\<close> at the head of a raw buffer; \<open>b_addr\<close> is the
  address of that buffer and the \<open>next\<close> link is the order of the list \<open>p_blocks\<close>,
  whose head is the pool itself.  \<open>p_current\<close> is the position of \<open>pool->current\<close> in
  that chain.  Pointers the code tests against NULL are options.
\<close>

record ngx_pool_data_t =
  b_addr :: nat
  d_last :: nat
  d_end :: nat
  d_failed :: nat

record ngx_pool_large_t =
  l_addr :: nat
  l_alloc :: "nat option"

record ngx_pool_cleanup_t =
  c_addr :: nat
  c_handler :: "nat option"
  c_data :: "nat option"

record ngx_pool_t =
  p_blocks :: "ngx_pool_data_t list"
  p_max :: nat
  p_current :: nat
  p_large :: "ngx_pool_large_t list"
  p_cleanup :: "ngx_pool_cleanup_t list"

datatype ngx_int_t = NGX_OK | NGX_DECLINED

definition ngx_create_pool :: "platform \<Rightarrow> nat \<Rightarrow> world \<Rightarrow> ngx_pool_t option \<times> world" where
  "ngx_create_pool L sz w =
     (case ngx_memalign (NGX_POOL_ALIGNMENT L) sz w of
        (None, w') \<Rightarrow> (None, w')
      | (Some p, w') \<Rightarrow>
          (let sz' = size_t_sub L sz (sizeof_pool_t L) in
           (Some \<lparr> p_blocks = [\<lparr> b_addr = p, d_last = p + sizeof_pool_t L,
                                  d_end = p + sz, d_failed = 0 \<rparr>],
                   p_max = (if sz' < NGX_MAX_ALLOC_FROM_POOL L then sz'
                            else NGX_MAX_ALLOC_FROM_POOL L),
                   p_current = 0, p_large = [], p_cleanup = [] \<rparr>, w')))"


fun free_larges :: "ngx_pool_large_t list \<Rightarrow> world \<Rightarrow> world" where
  "free_larges [] w = w"
| "free_larges (l # ls) w =
     (case l_alloc l of
        None \<Rightarrow> free_larges ls w
      | Some a \<Rightarrow> free_larges ls (ngx_free (Some a) w))"



definition ngx_reset_pool :: "platform \<Rightarrow> ngx_pool_t \<Rightarrow> world \<Rightarrow> ngx_pool_t \<times> world" where
  "ngx_reset_pool L pool w =
     (pool\<lparr> p_large := [],
            p_blocks := map (\<lambda>b. b\<lparr>d_last := b_addr b + sizeof_pool_t L\<rparr>) (p_blocks pool) \<rparr>,
      free_larges (p_large pool) w)"

text \<open>
  The \<open>do ... while (p)\<close> search of \<open>ngx_palloc\<close> (\<open>al = True\<close>) and of \<open>ngx_pnalloc\<close>
  (\<open>al = False\<close>) over the chain from \<open>pool->current\<close>: the address claimed and the
  chain with the cursor of the block advanced, or \<open>None\<close> when no block has room.
  The comparison is the one of the code, on the difference cast to \<open>size_t\<close>.
\<close>

fun palloc_scan ::
  "platform \<Rightarrow> bool \<Rightarrow> nat \<Rightarrow> ngx_pool_data_t list \<Rightarrow> (nat \<times> ngx_pool_data_t list) option" where
  "palloc_scan L al sz [] = None"
| "palloc_scan L al sz (b # bs) =
     (let m = (if al then ngx_align_ptr (d_last b) (NGX_ALIGNMENT L) else d_last b) in
      if sz \<le> size_t_sub L (d_end b) m then Some (m, b\<lparr>d_last := m + sz\<rparr> # bs)
      else (case palloc_scan L al sz bs of
              None \<Rightarrow> None
            | Some (r, bs') \<Rightarrow> Some (r, b # bs')))"

text \<open>
  The walk of \<open>ngx_palloc_block\<close>: \<open>for (p = current; p->d.next; p = p->d.next)\<close>
  with \<open>if (p->d.failed++ > 4) current = p->d.next\<close>.  \<open>i\<close> is the position of the
  head of the list in the chain; the local \<open>current\<close> is a pointer, hence an option.
\<close>

fun failed_walk ::
  "nat \<Rightarrow> ngx_pool_data_t list \<Rightarrow> nat option \<Rightarrow> ngx_pool_data_t list \<times> nat option" where
  "failed_walk i [] cur = ([], cur)"
| "failed_walk i [b] cur = ([b], cur)"
| "failed_walk i (b # b' # bs) cur =
     (let cur' = (if 4 < d_failed b then Some (Suc i) else cur);
          (rest, c) = failed_walk (Suc i) (b' # bs) cur'
      in (b\<lparr>d_failed := d_failed b + 1\<rparr> # rest, c))"

definition ngx_palloc_block ::
  "platform \<Rightarrow> nat \<Rightarrow> ngx_pool_t \<Rightarrow> world \<Rightarrow> nat option \<times> ngx_pool_t \<times> world" where
  "ngx_palloc_block L sz pool w =
     (case p_blocks pool of
        [] \<Rightarrow> (None, pool, w)
      | b0 # _ \<Rightarrow>
         (let psize = size_t_sub L (d_end b0) (b_addr b0) in
          case ngx_memalign (NGX_POOL_ALIGNMENT L) psize w of
            (None, w') \<Rightarrow> (None, pool, w')
          | (Some new, w') \<Rightarrow>
             (let m = ngx_align_ptr (new + sizeof_pool_data_t L) (NGX_ALIGNMENT L);
                  nb = \<lparr> b_addr = new, d_last = m + sz, d_end = new + psize, d_failed = 0 \<rparr>;
                  cur = p_current pool;
                  (vis, current) = failed_walk cur (drop cur (p_blocks pool)) (Some cur);
                  blocks' = take cur (p_blocks pool) @ vis @ [nb]
              in (Some m,
                  pool\<lparr> p_blocks := blocks',
                         p_current := (case current of Some c \<Rightarrow> c
                                       | None \<Rightarrow> length blocks' - 1) \<rparr>,
                  w'))))"

text \<open>
  The registration loop of \<open>ngx_palloc_large\<close>: \<open>n\<close> counts the records already passed;
  the result is the chain with the buffer stored in a reused record, or \<open>None\<close>.
\<close>

fun large_scan :: "nat \<Rightarrow> nat \<Rightarrow> ngx_pool_large_t list \<Rightarrow> ngx_pool_large_t list option" where
  "large_scan p n [] = None"
| "large_scan p n (l # ls) =
     (if l_alloc l = None then Some (l\<lparr>l_alloc := Some p\<rparr> # ls)
      else if 3 < n then None
      else (case large_scan p (n + 1) ls of
              None \<Rightarrow> None
            | Some ls' \<Rightarrow> Some (l # ls')))"

function ngx_palloc ::
    "platform \<Rightarrow> nat \<Rightarrow> ngx_pool_t \<Rightarrow> world \<Rightarrow> nat option \<times> ngx_pool_t \<times> world"
  and ngx_palloc_large ::
    "platform \<Rightarrow> nat \<Rightarrow> ngx_pool_t \<Rightarrow> world \<Rightarrow> nat option \<times> ngx_pool_t \<times> world"
where
  "ngx_palloc L sz pool w =
     (if sz \<le> p_max pool then
        (case palloc_scan L True sz (drop (p_current pool) (p_blocks pool)) of
           Some (m, bs') \<Rightarrow>
             (Some m, pool\<lparr>p_blocks := take (p_current pool) (p_blocks pool) @ bs'\<rparr>, w)
         | None \<Rightarrow> ngx_palloc_block L sz pool w)
      else ngx_palloc_large L sz pool w)"
| "ngx_palloc_large L sz pool w =
     (case ngx_alloc sz w of
        (None, w') \<Rightarrow> (None, pool, w')
      | (Some p, w') \<Rightarrow>
         (case large_scan p 0 (p_large pool) of
            Some ls' \<Rightarrow> (Some p, pool\<lparr>p_large := ls'\<rparr>, w')
          | None \<Rightarrow>
             (case ngx_palloc L (sizeof_pool_large_t L) pool w' of
                (None, pool', w'') \<Rightarrow> (None, pool', ngx_free (Some p) w'')
              | (Some la, pool', w'') \<Rightarrow>
                  (Some p,
                   pool'\<lparr>p_large := \<lparr> l_addr = la, l_alloc = Some p \<rparr> # p_large pool'\<rparr>,
                   w''))))"
  by pat_completeness auto

text \<open>
  The two functions call each other: \<open>ngx_palloc_large\<close> takes the memory of a new
  record from \<open>ngx_palloc\<close>.  Every round of that recursion has taken a buffer from the
  raw allocator first, so the free raw space decreases.
\<close>

lemma ngx_alloc_grows:
  "ngx_alloc n w = (Some p, w') \<Longrightarrow>
     heap_next w < heap_next w' \<and> heap_next w' \<le> heap_limit w' \<and> heap_limit w' = heap_limit w"
  by (auto simp: ngx_alloc_def malloc_def Let_def split: if_splits)

termination ngx_palloc
  apply (relation "measures [\<lambda>x. case x of Inl (L, sz, pool, w) \<Rightarrow> heap_limit w - heap_next w
                                       | Inr (L, sz, pool, w) \<Rightarrow> heap_limit w - heap_next w,
                            \<lambda>x. case x of Inl _ \<Rightarrow> 1 | Inr _ \<Rightarrow> 0]")
    apply simp
   apply simp
  subgoal for L sz pool w x y p
    using ngx_alloc_grows [of sz w p y] by auto
  done

declare ngx_palloc.simps [simp del] ngx_palloc_large.simps [simp del]

definition ngx_pnalloc ::
  "platform \<Rightarrow> nat \<Rightarrow> ngx_pool_t \<Rightarrow> world \<Rightarrow> nat option \<times> ngx_pool_t \<times> world" where
  "ngx_pnalloc L sz pool w =
     (if sz \<le> p_max pool then
        (case palloc_scan L False sz (drop (p_current pool) (p_blocks pool)) of
           Some (m, bs') \<Rightarrow>
             (Some m, pool\<lparr>p_blocks := take (p_current pool) (p_blocks pool) @ bs'\<rparr>, w)
         | None \<Rightarrow> ngx_palloc_block L sz pool w)
      else ngx_palloc_large L sz pool w)"

text \<open>The loop of \<open>ngx_pfree\<close> over the large chain.\<close>

fun pfree_scan ::
  "nat option \<Rightarrow> ngx_pool_large_t list \<Rightarrow> world \<Rightarrow> (ngx_pool_large_t list \<times> world) option" where
  "pfree_scan p [] w = None"
| "pfree_scan p (l # ls) w =
     (if p = l_alloc l then Some (l\<lparr>l_alloc := None\<rparr> # ls, ngx_free (l_alloc l) w)
      else (case pfree_scan p ls w of
              None \<Rightarrow> None
            | Some (ls', w') \<Rightarrow> Some (l # ls', w')))"

definition ngx_pfree ::
  "ngx_pool_t \<Rightarrow> nat option \<Rightarrow> world \<Rightarrow> ngx_int_t \<times> ngx_pool_t \<times> world" where
  "ngx_pfree pool p w =
     (case pfree_scan p (p_large pool) w of
        Some (ls', w') \<Rightarrow> (NGX_OK, pool\<lparr>p_large := ls'\<rparr>, w')
      | None \<Rightarrow> (NGX_DECLINED, pool, w))"

definition ngx_pool_cleanup_add ::
  "platform \<Rightarrow> nat \<Rightarrow> ngx_pool_t \<Rightarrow> world \<Rightarrow> nat option \<times> ngx_pool_t \<times> world" where
  "ngx_pool_cleanup_add L sz pool w =
     (case ngx_palloc L (sizeof_pool_cleanup_t L) pool w of
        (None, pool1, w1) \<Rightarrow> (None, pool1, w1)
      | (Some c, pool1, w1) \<Rightarrow>
          if sz \<noteq> 0 then
            (case ngx_palloc L sz pool1 w1 of
               (None, pool2, w2) \<Rightarrow> (None, pool2, w2)
             | (Some d, pool2, w2) \<Rightarrow>
                 (Some c,
                  pool2\<lparr>p_cleanup := \<lparr> c_addr = c, c_handler = None, c_data = Some d \<rparr>
                                        # p_cleanup pool2\<rparr>,
                  w2))
          else
            (Some c,
             pool1\<lparr>p_cleanup := \<lparr> c_addr = c, c_handler = None, c_data = None \<rparr>
                                   # p_cleanup pool1\<rparr>,
             w1))"


section \<open>The array\<close>

text \<open>
  \<open>a_addr\<close> is the address of the \<open>ngx_array_t\<close> itself.  The field \<open>pool\<close> of the
  structure is the pool passed along; \<open>p->d\<close> is the pool's own block, the head of the
  chain.
\<close>

record ngx_array_t =
  a_addr :: nat
  a_elts :: nat
  a_nelts :: nat
  a_size :: nat
  a_nalloc :: nat

definition ngx_array_create ::
  "platform \<Rightarrow> nat \<Rightarrow> nat \<Rightarrow> ngx_pool_t \<Rightarrow> world \<Rightarrow> ngx_array_t option \<times> ngx_pool_t \<times> world" where
  "ngx_array_create L n sz pool w =
     (case ngx_palloc L (sizeof_array_t L) pool w of
        (None, pool1, w1) \<Rightarrow> (None, pool1, w1)
      | (Some a, pool1, w1) \<Rightarrow>
          (case ngx_palloc L (size_t_mul L n sz) pool1 w1 of
             (None, pool2, w2) \<Rightarrow> (None, pool2, w2)
           | (Some e, pool2, w2) \<Rightarrow>
               (Some \<lparr> a_addr = a, a_elts = e, a_nelts = 0, a_size = sz, a_nalloc = n \<rparr>,
                pool2, w2)))"

definition ngx_array_push ::
  "platform \<Rightarrow> ngx_array_t \<Rightarrow> ngx_pool_t \<Rightarrow> world
     \<Rightarrow> nat option \<times> ngx_array_t \<times> ngx_pool_t \<times> world" where
  "ngx_array_push L a pool w =
     (let take_slot = (\<lambda>a' pool' w'.
            (Some (a_elts a' + size_t_mul L (a_size a') (a_nelts a')),
             a'\<lparr>a_nelts := size_t_add L (a_nelts a') 1\<rparr>, pool', w'))
      in
      if a_nelts a = a_nalloc a then
        (let sz = size_t_mul L (a_size a) (a_nalloc a) in
         case p_blocks pool of
           [] \<Rightarrow> (None, a, pool, w)
         | d # rest \<Rightarrow>
             if a_elts a + sz = d_last d \<and> d_last d + a_size a \<le> d_end d then
               take_slot (a\<lparr>a_nalloc := size_t_add L (a_nalloc a) 1\<rparr>)
                         (pool\<lparr>p_blocks := d\<lparr>d_last := d_last d + a_size a\<rparr> # rest\<rparr>) w
             else
               (case ngx_palloc L (size_t_mul L 2 sz) pool w of
                  (None, pool', w') \<Rightarrow> (None, a, pool', w')
                | (Some new, pool', w') \<Rightarrow>
                    take_slot (a\<lparr>a_elts := new, a_nalloc := size_t_mul L (a_nalloc a) 2\<rparr>)
                              pool'
                              (w'\<lparr>mem := ngx_memcpy new (a_elts a) sz (mem w')\<rparr>)))
      else take_slot a pool w)"


section \<open>The list\<close>







section \<open>Sequences of allocations\<close>

text \<open>
  A caller's successive calls of \<open>ngx_palloc\<close> and \<open>ngx_pnalloc\<close> on one pool, with
  nothing else in between.  The result lists the regions handed out, as address and
  size, in the order of the calls; \<open>None\<close> when one of the calls returns NULL.
\<close>

datatype alloc_call = Palloc nat | Pnalloc nat

fun run_allocs ::
  "platform \<Rightarrow> alloc_call list \<Rightarrow> ngx_pool_t \<Rightarrow> world
     \<Rightarrow> ((nat \<times> nat) list \<times> ngx_pool_t \<times> world) option" where
  "run_allocs L [] pool w = Some ([], pool, w)"
| "run_allocs L (c # cs) pool w =
     (case (case c of Palloc n \<Rightarrow> ngx_palloc L n pool w | Pnalloc n \<Rightarrow> ngx_pnalloc L n pool w) of
        (None, pool', w') \<Rightarrow> None
      | (Some p, pool', w') \<Rightarrow>
          (case run_allocs L cs pool' w' of
             None \<Rightarrow> None
           | Some (rs, pool'', w'') \<Rightarrow>
               Some ((p, case c of Palloc n \<Rightarrow> n | Pnalloc n \<Rightarrow> n) # rs, pool'', w'')))"

section \<open>Concrete states used for evaluation\<close>

text \<open>
  \<open>fresh_world\<close>: nothing allocated yet.  \<open>demo_world\<close> hosts \<open>demo_pool\<close>, a pool of
  1024 bytes at address 4096 with one large buffer and three cleanup records.
\<close>

definition fresh_world :: world where
  "fresh_world = \<lparr> heap_next = 4096, heap_limit = 1048576, trace = [], mem = (\<lambda>a. 0) \<rparr>"

definition demo_world :: world where
  "demo_world = \<lparr> heap_next = 24576, heap_limit = 1048576, trace = [], mem = (\<lambda>a. 0) \<rparr>"

definition demo_pool :: ngx_pool_t where
  "demo_pool =
     \<lparr> p_blocks = [\<lparr> b_addr = 4096, d_last = 4352, d_end = 5120, d_failed = 0 \<rparr>],
       p_max = 944, p_current = 0,
       p_large = [\<lparr> l_addr = 4176, l_alloc = Some 8192 \<rparr>],
       p_cleanup = [\<lparr> c_addr = 4200, c_handler = Some 7, c_data = None \<rparr>,
                    \<lparr> c_addr = 4230, c_handler = None, c_data = None \<rparr>,
                    \<lparr> c_addr = 4260, c_handler = Some 9, c_data = Some 4300 \<rparr>] \<rparr>"


lemmas eval_defs =
  ngx_palloc.simps ngx_palloc_large.simps ngx_pnalloc_def ngx_palloc_block_def
  ngx_pool_cleanup_add_def ngx_create_pool_def ngx_alloc_def ngx_memalign_def malloc_def
  posix_memalign_def ngx_free_def ngx_align_ptr_def size_t_sub_def size_t_mul_def
  size_t_add_def lp64_def Let_def


section \<open>Freeing a large allocation\<close>

lemma pfree_scan_None:
  "pfree_scan p ls w = None \<longleftrightarrow> (\<forall>l \<in> set ls. l_alloc l \<noteq> p)"
  by (induction ls) (auto split: option.splits)

text \<open>
  Claim C8.  \<open>ngx_pfree\<close> on a pointer that is the backing pointer of no record of the
  large chain returns \<open>NGX_DECLINED\<close>; the pool (large chain, cleanup chain, every block
  and its cursor) and the world (no call of the raw allocator) are unchanged.
\<close>

theorem pfree_untracked_declined:
  assumes "\<forall>l \<in> set (p_large pool). l_alloc l \<noteq> p"
  shows "ngx_pfree pool p w = (NGX_DECLINED, pool, w)"
proof -
  from assms have "pfree_scan p (p_large pool) w = None"
    by (simp add: pfree_scan_None)
  then show ?thesis
    by (simp add: ngx_pfree_def)
qed

theorem pfree_untracked_declined_witness:
  "ngx_pfree demo_pool (Some 12288) demo_world = (NGX_DECLINED, demo_pool, demo_world)
   \<and> fst (ngx_pfree demo_pool (Some 8192) demo_world) = NGX_OK"
proof -
  have untracked: "\<forall>l \<in> set (p_large demo_pool). l_alloc l \<noteq> Some 12288"
    by (simp add: demo_pool_def)
  have tracked: "fst (ngx_pfree demo_pool (Some 8192) demo_world) = NGX_OK"
    by (simp add: demo_pool_def ngx_pfree_def)
  from pfree_untracked_declined [OF untracked, of demo_world] tracked
  show ?thesis by (rule conjI)
qed


section \<open>Reset\<close>

lemma trace_free_larges:
  "trace (free_larges ls w) = trace w @ map Raw_free (List.map_filter l_alloc ls)"
  by (induction ls arbitrary: w)
     (auto simp: ngx_free_def List.map_filter_simps split: option.splits)

text \<open>
  Claim C5.  After \<open>ngx_reset_pool\<close> the large chain is empty, so \<open>ngx_pfree\<close> of any
  pointer (in particular of every large pointer handed out before the reset) returns
  \<open>NGX_DECLINED\<close>.  The reset leaves the cleanup chain as it was, and the only effects it
  has on the world are the \<open>free\<close> calls for the large buffers: no handler is run.
\<close>

theorem reset_drops_large_keeps_cleanup:
  assumes "ngx_reset_pool L pool w = (pool', w')"
  shows "fst (ngx_pfree pool' p w') = NGX_DECLINED
         \<and> p_cleanup pool' = p_cleanup pool
         \<and> trace w' = trace w @ map Raw_free (List.map_filter l_alloc (p_large pool))"
  using assms
  by (auto simp: ngx_reset_pool_def ngx_pfree_def trace_free_larges)

theorem reset_drops_large_keeps_cleanup_witness:
  "fst (ngx_pfree (fst (ngx_reset_pool lp64 demo_pool demo_world)) (Some 8192)
          (snd (ngx_reset_pool lp64 demo_pool demo_world))) = NGX_DECLINED
   \<and> p_cleanup (fst (ngx_reset_pool lp64 demo_pool demo_world)) = p_cleanup demo_pool
   \<and> trace (snd (ngx_reset_pool lp64 demo_pool demo_world))
       = trace demo_world @ map Raw_free (List.map_filter l_alloc (p_large demo_pool))"
  by (rule reset_drops_large_keeps_cleanup
             [of lp64 demo_pool demo_world "fst (ngx_reset_pool lp64 demo_pool demo_world)"
                 "snd (ngx_reset_pool lp64 demo_pool demo_world)" "Some 8192"])
     simp


text \<open>
  A pool of 128 bytes after two allocations of 40 bytes and \<open>ngx_reset_pool\<close>.  The
  second allocation opened a second block and was served at 4256, the start of that
  block's data region (its address plus the aligned size of \<open>ngx_pool_data_t\<close>).
  \<open>reset_pool\<close> and \<open>reset_world\<close> are the state that run ends in.
\<close>

definition reset_run :: "((nat \<times> nat) list \<times> ngx_pool_t \<times> world) option" where
  "reset_run =
     (case ngx_create_pool lp64 128 fresh_world of
        (None, w0) \<Rightarrow> None
      | (Some pool0, w0) \<Rightarrow>
          (case run_allocs lp64 [Palloc 40, Palloc 40] pool0 w0 of
             None \<Rightarrow> None
           | Some (rs, pool1, w1) \<Rightarrow>
               (case ngx_reset_pool lp64 pool1 w1 of (pool2, w2) \<Rightarrow> Some (rs, pool2, w2))))"

definition reset_pool :: ngx_pool_t where
  "reset_pool =
     \<lparr> p_blocks = [\<lparr> b_addr = 4096, d_last = 4176, d_end = 4224, d_failed = 0 \<rparr>,
                   \<lparr> b_addr = 4224, d_last = 4304, d_end = 4352, d_failed = 0 \<rparr>],
       p_max = 48, p_current = 0, p_large = [], p_cleanup = [] \<rparr>"

definition reset_world :: world where
  "reset_world =
     \<lparr> heap_next = 4352, heap_limit = 1048576,
       trace = [Raw_memalign 16 128 4096, Raw_memalign 16 128 4224], mem = (\<lambda>a. 0) \<rparr>"

text \<open>
  Claim C4: \<open>ngx_reset_pool\<close> puts the cursor of every block back to the start of that
  block's data region, so that the full capacity of every block can be used again.  The
  code breaks this for every block but the first: it sets the cursor of each block to its
  address plus the size of \<open>ngx_pool_t\<close>, while \<open>ngx_palloc_block\<close> starts the data of a
  later block after the smaller \<open>ngx_pool_data_t\<close>.  In the state above the cursor of
  the second block is 4304, not 4256.  Of its 96 bytes of data only 48 are handed out
  again: the third of three allocations of 48 bytes opens a new block.
\<close>

theorem reset_skips_start_of_later_blocks:
  "reset_run = Some ([(4176, 40), (4256, 40)], reset_pool, reset_world)
   \<and> map d_last (p_blocks reset_pool) = [4096 + sizeof_pool_t lp64, 4224 + sizeof_pool_t lp64]
   \<and> run_allocs lp64 [Palloc 48, Palloc 48, Palloc 48] reset_pool reset_world =
       Some ([(4176, 48), (4304, 48), (4384, 48)],
             \<lparr> p_blocks = [\<lparr> b_addr = 4096, d_last = 4224, d_end = 4224, d_failed = 1 \<rparr>,
                           \<lparr> b_addr = 4224, d_last = 4352, d_end = 4352, d_failed = 0 \<rparr>,
                           \<lparr> b_addr = 4352, d_last = 4432, d_end = 4480, d_failed = 0 \<rparr>],
               p_max = 48, p_current = 0, p_large = [], p_cleanup = [] \<rparr>,
             reset_world\<lparr>heap_next := 4480,
                         trace := trace reset_world @ [Raw_memalign 16 128 4352]\<rparr>)"
proof (intro conjI)
  show "reset_run = Some ([(4176, 40), (4256, 40)], reset_pool, reset_world)"
    by (simp add: reset_run_def reset_pool_def reset_world_def fresh_world_def
          ngx_reset_pool_def eval_defs)
qed (simp_all add: reset_pool_def reset_world_def eval_defs)



section \<open>The regions of a sequence of allocations\<close>

text \<open>
  The bytes of a returned region, and the test that a region lies within the buffer of a
  block.
\<close>

definition region :: "nat \<times> nat \<Rightarrow> nat set" where
  "region r = {fst r ..< fst r + snd r}"

definition in_block :: "ngx_pool_data_t \<Rightarrow> nat \<times> nat \<Rightarrow> bool" where
  "in_block b r \<longleftrightarrow> b_addr b \<le> fst r \<and> fst r + snd r \<le> d_end b"

text \<open>
  A pool of 100 bytes, a size that is not a multiple of \<open>NGX_ALIGNMENT\<close>, and six
  allocations.  \<open>unaligned_pool\<close> and \<open>unaligned_world\<close> are the state the run ends in.
\<close>

definition unaligned_run :: "((nat \<times> nat) list \<times> ngx_pool_t \<times> world) option" where
  "unaligned_run =
     (case ngx_create_pool lp64 100 fresh_world of
        (None, w0) \<Rightarrow> None
      | (Some pool0, w0) \<Rightarrow>
          run_allocs lp64 [Palloc 16, Palloc 16, Pnalloc 1, Palloc 8, Palloc 16, Palloc 20]
            pool0 w0)"

definition unaligned_pool :: ngx_pool_t where
  "unaligned_pool =
     \<lparr> p_blocks = [\<lparr> b_addr = 4096, d_last = 4244, d_end = 4196, d_failed = 0 \<rparr>,
                   \<lparr> b_addr = 4208, d_last = 4256, d_end = 4308, d_failed = 0 \<rparr>],
       p_max = 20, p_current = 0, p_large = [], p_cleanup = [] \<rparr>"

definition unaligned_world :: world where
  "unaligned_world =
     \<lparr> heap_next = 4308, heap_limit = 1048576,
       trace = [Raw_memalign 16 100 4096, Raw_memalign 16 100 4208], mem = (\<lambda>a. 0) \<rparr>"

text \<open>
  Claim C1: for every sequence of successful allocations with \<open>ngx_palloc\<close> and
  \<open>ngx_pnalloc\<close>, with no reset or destroy in between, the regions returned do not
  overlap and each lies within the buffer of a block of the chain.  The code breaks this
  when the end of a block is not aligned.  After the first three calls the cursor of the
  first block is 4193, three bytes before its end 4196.  \<open>ngx_palloc\<close> aligns the cursor
  to 4200, beyond the end, and the room \<open>(size_t) (p->d.end - m)\<close> wraps around to a
  huge value, so the test for room succeeds: the fourth region, at 4200, is in no block,
  the fifth, at 4208, is the header of the second block, and the sixth overlaps the
  second region, which was served from the second block.
\<close>

theorem palloc_past_block_end:
  "unaligned_run =
     Some ([(4176, 16), (4240, 16), (4192, 1), (4200, 8), (4208, 16), (4224, 20)],
           unaligned_pool, unaligned_world)
   \<and> map (\<lambda>b. (b_addr b, d_end b)) (p_blocks unaligned_pool) = [(4096, 4196), (4208, 4308)]
   \<and> \<not> list_ex (\<lambda>b. in_block b (4200, 8)) (p_blocks unaligned_pool)
   \<and> region (4208, 16) \<inter> {4208 ..< 4208 + sizeof_pool_data_t lp64} = region (4208, 16)
   \<and> region (4240, 16) \<inter> region (4224, 20) = {4240 ..< 4244}"
proof (intro conjI)
  show "unaligned_run =
     Some ([(4176, 16), (4240, 16), (4192, 1), (4200, 8), (4208, 16), (4224, 20)],
           unaligned_pool, unaligned_world)"
    by (simp add: unaligned_run_def unaligned_pool_def unaligned_world_def fresh_world_def
          eval_defs)
  show "region (4240, 16) \<inter> region (4224, 20) = {4240 ..< 4244}"
    by (auto simp: region_def)
  show "region (4208, 16) \<inter> {4208 ..< 4208 + sizeof_pool_data_t lp64} = region (4208, 16)"
    by (auto simp: region_def lp64_def)
qed (simp_all add: unaligned_pool_def in_block_def)


section \<open>Destroy and the cleanup chain\<close>












section \<open>Registering a large allocation\<close>

lemma palloc_block_frame:
  "ngx_palloc_block L sz pool w = (r, pool', w') \<Longrightarrow>
     p_large pool' = p_large pool \<and> p_max pool' = p_max pool"
  by (auto simp: ngx_palloc_block_def Let_def split: list.splits prod.splits option.splits)

lemma palloc_small_frame:
  assumes "sz \<le> p_max pool" and "ngx_palloc L sz pool w = (r, pool', w')"
  shows "p_large pool' = p_large pool \<and> p_max pool' = p_max pool"
  using assms
  by (subst (asm) ngx_palloc.simps)
     (auto split: option.splits dest: palloc_block_frame)

text \<open>
  A pool of 1024 bytes after five large allocations of 5000 bytes and \<open>ngx_pfree\<close> of the
  first of them: every new record went to the head of the large chain, so the chain has
  four occupied records followed by the freed one.  \<open>five_large_pool\<close> and
  \<open>five_large_world\<close> are the state that run ends in.
\<close>

definition five_large_run :: "(ngx_int_t \<times> ngx_pool_t \<times> world) option" where
  "five_large_run =
     (case ngx_create_pool lp64 1024 fresh_world of
        (None, w0) \<Rightarrow> None
      | (Some pool0, w0) \<Rightarrow>
          (case run_allocs lp64 [Palloc 5000, Palloc 5000, Palloc 5000, Palloc 5000, Palloc 5000]
                  pool0 w0 of
             None \<Rightarrow> None
           | Some (rs, pool1, w1) \<Rightarrow> Some (ngx_pfree pool1 (Some 5120) w1)))"

definition five_large_pool :: ngx_pool_t where
  "five_large_pool =
     \<lparr> p_blocks = [\<lparr> b_addr = 4096, d_last = 4256, d_end = 5120, d_failed = 0 \<rparr>],
       p_max = 944, p_current = 0,
       p_large = [\<lparr> l_addr = 4240, l_alloc = Some 25120 \<rparr>,
                  \<lparr> l_addr = 4224, l_alloc = Some 20120 \<rparr>,
                  \<lparr> l_addr = 4208, l_alloc = Some 15120 \<rparr>,
                  \<lparr> l_addr = 4192, l_alloc = Some 10120 \<rparr>,
                  \<lparr> l_addr = 4176, l_alloc = None \<rparr>],
       p_cleanup = [] \<rparr>"

definition five_large_world :: world where
  "five_large_world =
     \<lparr> heap_next = 30120, heap_limit = 1048576,
       trace = [Raw_memalign 16 1024 4096, Raw_malloc 5000 5120, Raw_malloc 5000 10120,
                Raw_malloc 5000 15120, Raw_malloc 5000 20120, Raw_malloc 5000 25120,
                Raw_free 5120],
       mem = (\<lambda>a. 0) \<rparr>"

text \<open>
  Claim C6: the registration of a large allocation examines at most four records of the
  large chain, reuses an empty record found among them, and puts a new record at the head
  otherwise.  The code breaks this.  Its loop leaves with \<open>if (n++ > 3) break\<close>, which
  is after the fifth record has been examined (the comment above the loop speaks of the
  first three).  In the state above the only empty record is the fifth: the next large
  allocation is stored in it, the chain keeps its five records, and no record is taken
  from the block.
\<close>

theorem palloc_large_reuses_fifth_record:
  "five_large_run = Some (NGX_OK, five_large_pool, five_large_world)
   \<and> ngx_palloc lp64 5000 five_large_pool five_large_world =
       (Some 30120,
        five_large_pool\<lparr>p_large := [\<lparr> l_addr = 4240, l_alloc = Some 25120 \<rparr>,
                                     \<lparr> l_addr = 4224, l_alloc = Some 20120 \<rparr>,
                                     \<lparr> l_addr = 4208, l_alloc = Some 15120 \<rparr>,
                                     \<lparr> l_addr = 4192, l_alloc = Some 10120 \<rparr>,
                                     \<lparr> l_addr = 4176, l_alloc = Some 30120 \<rparr>]\<rparr>,
        five_large_world\<lparr>heap_next := 35120,
                          trace := trace five_large_world @ [Raw_malloc 5000 30120]\<rparr>)"
proof
  show "five_large_run = Some (NGX_OK, five_large_pool, five_large_world)"
    by (simp add: five_large_run_def five_large_pool_def five_large_world_def fresh_world_def
          ngx_pfree_def eval_defs)
next
  show "ngx_palloc lp64 5000 five_large_pool five_large_world =
       (Some 30120,
        five_large_pool\<lparr>p_large := [\<lparr> l_addr = 4240, l_alloc = Some 25120 \<rparr>,
                                     \<lparr> l_addr = 4224, l_alloc = Some 20120 \<rparr>,
                                     \<lparr> l_addr = 4208, l_alloc = Some 15120 \<rparr>,
                                     \<lparr> l_addr = 4192, l_alloc = Some 10120 \<rparr>,
                                     \<lparr> l_addr = 4176, l_alloc = Some 30120 \<rparr>]\<rparr>,
        five_large_world\<lparr>heap_next := 35120,
                          trace := trace five_large_world @ [Raw_malloc 5000 30120]\<rparr>)"
    by (simp add: five_large_pool_def five_large_world_def eval_defs)
qed


section \<open>Block growth\<close>

lemma failed_walk_fst:
  "fst (failed_walk i bs cur) =
     map (\<lambda>b. b\<lparr>d_failed := d_failed b + 1\<rparr>) (butlast bs) @ (if bs = [] then [] else [last bs])"
proof (induction bs arbitrary: i cur)
  case Nil
  then show ?case by simp
next
  case (Cons b bs)
  show ?case
  proof (cases bs)
    case Nil
    then show ?thesis by simp
  next
    case (Cons b' bs')
    define cur' where "cur' = (if 4 < d_failed b then Some (Suc i) else cur)"
    have "fst (failed_walk i (b # b' # bs') cur)
            = b\<lparr>d_failed := d_failed b + 1\<rparr> # fst (failed_walk (Suc i) (b' # bs') cur')"
      by (simp add: cur'_def Let_def split: prod.splits)
    with Cons.IH [of "Suc i" cur'] Cons show ?thesis
      by simp
  qed
qed

lemma failed_walk_length: "length (fst (failed_walk i bs cur)) = length bs"
  by (cases "bs = []") (simp_all add: failed_walk_fst)

lemma failed_walk_nth:
  assumes "k < length bs"
  shows "fst (failed_walk i bs cur) ! k =
           (if Suc k < length bs then (bs ! k)\<lparr>d_failed := d_failed (bs ! k) + 1\<rparr> else bs ! k)"
proof (cases "Suc k < length bs")
  case True
  then have "k < length (butlast bs)" by simp
  then show ?thesis
    using True by (simp add: failed_walk_fst nth_append nth_butlast)
next
  case False
  with assms have k: "k = length bs - 1" and ne: "bs \<noteq> []" by auto
  then show ?thesis
    using False by (simp add: failed_walk_fst nth_append last_conv_nth)
qed

lemma failed_walk_current:
  "(snd (failed_walk i bs cur) = cur \<and> (\<forall>k. Suc k < length bs \<longrightarrow> d_failed (bs ! k) \<le> 4))
   \<or> (\<exists>k. Suc k < length bs \<and> 4 < d_failed (bs ! k)
           \<and> (\<forall>j. k < j \<and> Suc j < length bs \<longrightarrow> d_failed (bs ! j) \<le> 4)
           \<and> snd (failed_walk i bs cur) = Some (Suc (i + k)))"
proof (induction bs arbitrary: i cur)
  case Nil
  then show ?case by simp
next
  case (Cons b bs)
  show ?case
  proof (cases bs)
    case Nil
    then show ?thesis by simp
  next
    case (Cons b' bs')
    define cur' where "cur' = (if 4 < d_failed b then Some (Suc i) else cur)"
    define c where "c = snd (failed_walk (Suc i) bs cur')"
    have step: "snd (failed_walk i (b # bs) cur) = c"
      by (simp add: c_def Cons cur'_def Let_def split: prod.splits)
    have len: "Suc k < length (b # bs) \<longleftrightarrow> k = 0 \<or> (\<exists>k'. k = Suc k' \<and> Suc k' < length bs)" for k
      using Cons by (cases k) auto
    from Cons.IH [of "Suc i" cur'] consider
        (same) "c = cur'" "\<forall>k. Suc k < length bs \<longrightarrow> d_failed (bs ! k) \<le> 4"
      | (moved) k where "Suc k < length bs" "4 < d_failed (bs ! k)"
          "\<forall>j. k < j \<and> Suc j < length bs \<longrightarrow> d_failed (bs ! j) \<le> 4"
          "c = Some (Suc (Suc i + k))"
      unfolding c_def by blast
    then show ?thesis
    proof cases
      case same
      show ?thesis
      proof (cases "4 < d_failed b")
        case True
        have "Suc 0 < length (b # bs) \<and> 4 < d_failed ((b # bs) ! 0)
              \<and> (\<forall>j. 0 < j \<and> Suc j < length (b # bs) \<longrightarrow> d_failed ((b # bs) ! j) \<le> 4)
              \<and> snd (failed_walk i (b # bs) cur) = Some (Suc (i + 0))"
        proof (intro conjI allI impI)
          fix j assume j: "0 < j \<and> Suc j < length (b # bs)"
          then obtain j' where j': "j = Suc j'" by (cases j) auto
          with j same(2) show "d_failed ((b # bs) ! j) \<le> 4" by simp
        qed (use True Cons step same(1) cur'_def in auto)
        then show ?thesis by blast
      next
        case False
        have "\<forall>k. Suc k < length (b # bs) \<longrightarrow> d_failed ((b # bs) ! k) \<le> 4"
        proof (intro allI impI)
          fix k assume k: "Suc k < length (b # bs)"
          show "d_failed ((b # bs) ! k) \<le> 4"
          proof (cases k)
            case 0 with False show ?thesis by simp
          next
            case (Suc k')
            with k same(2) show ?thesis by simp
          qed
        qed
        moreover have "snd (failed_walk i (b # bs) cur) = cur"
          using step same(1) False by (simp add: cur'_def)
        ultimately show ?thesis by blast
      qed
    next
      case (moved k)
      have "Suc (Suc k) < length (b # bs) \<and> 4 < d_failed ((b # bs) ! Suc k)
            \<and> (\<forall>j. Suc k < j \<and> Suc j < length (b # bs) \<longrightarrow> d_failed ((b # bs) ! j) \<le> 4)
            \<and> snd (failed_walk i (b # bs) cur) = Some (Suc (i + Suc k))"
      proof (intro conjI allI impI)
        fix j assume j: "Suc k < j \<and> Suc j < length (b # bs)"
        then obtain j' where j': "j = Suc j'" by (cases j) auto
        with j moved(3) show "d_failed ((b # bs) ! j) \<le> 4" by simp
      qed (use moved step in auto)
      then show ?thesis by blast
    qed
  qed
qed

lemma palloc_block_Some:
  assumes "ngx_palloc_block L sz pool w = (Some m, pool', w')"
  shows "\<exists>new psize.
           ngx_memalign (NGX_POOL_ALIGNMENT L) psize w = (Some new, w')
         \<and> p_blocks pool \<noteq> []
         \<and> psize = size_t_sub L (d_end (hd (p_blocks pool))) (b_addr (hd (p_blocks pool)))
         \<and> m = ngx_align_ptr (new + sizeof_pool_data_t L) (NGX_ALIGNMENT L)
         \<and> p_blocks pool' =
             take (p_current pool) (p_blocks pool)
             @ fst (failed_walk (p_current pool) (drop (p_current pool) (p_blocks pool))
                      (Some (p_current pool)))
             @ [\<lparr> b_addr = new, d_last = m + sz, d_end = new + psize, d_failed = 0 \<rparr>]
         \<and> p_current pool' =
             (case snd (failed_walk (p_current pool) (drop (p_current pool) (p_blocks pool))
                          (Some (p_current pool))) of
                Some c \<Rightarrow> c | None \<Rightarrow> length (p_blocks pool') - 1)
         \<and> p_max pool' = p_max pool \<and> p_large pool' = p_large pool
         \<and> p_cleanup pool' = p_cleanup pool"
  using assms
  by (auto simp: ngx_palloc_block_def Let_def failed_walk_length
           split: list.splits prod.splits option.splits)

text \<open>
  A pool of 128 bytes whose only block has 8 bytes left, as it is after
  \<open>ngx_create_pool\<close> and one allocation of 40 bytes.
\<close>

definition full_pool :: ngx_pool_t where
  "full_pool =
     \<lparr> p_blocks = [\<lparr> b_addr = 4096, d_last = 4216, d_end = 4224, d_failed = 0 \<rparr>],
       p_max = 48, p_current = 0, p_large = [], p_cleanup = [] \<rparr>"

definition full_world :: world where
  "full_world = \<lparr> heap_next = 4224, heap_limit = 1048576,
                  trace = [Raw_memalign 16 128 4096], mem = (\<lambda>a. 0) \<rparr>"

text \<open>
  Claim C7 as stated fails: when the pool has a single block, the walk of
  \<open>ngx_palloc_block\<close> visits nothing (the loop runs while \<open>p->d.next\<close> is set), no
  candidate is set, and yet \<open>current\<close> stays the first block; the claim says it becomes
  the new block.
\<close>

theorem palloc_block_current_counterexample:
  "fst (ngx_palloc_block lp64 40 full_pool full_world) = Some 4256
   \<and> p_blocks (fst (snd (ngx_palloc_block lp64 40 full_pool full_world)))
       = [\<lparr> b_addr = 4096, d_last = 4216, d_end = 4224, d_failed = 0 \<rparr>,
          \<lparr> b_addr = 4224, d_last = 4296, d_end = 4352, d_failed = 0 \<rparr>]
   \<and> p_current (fst (snd (ngx_palloc_block lp64 40 full_pool full_world))) = 0"
  by (simp add: eval_defs full_pool_def full_world_def)

text \<open>
  Claim C7, amended.  A successful \<open>ngx_palloc_block\<close> links the new block at the tail.
  The walk visits the blocks from \<open>current\<close> up to, but not including, the old tail and
  increments the failure counter of each; all other blocks are unchanged.  The candidate
  starts as the old \<open>current\<close> and moves to the successor of every visited block whose
  counter was greater than 4 before the increment; \<open>current\<close> becomes the candidate.
  So it is unchanged when no visited block exceeded the threshold, it is the successor of
  the last such block otherwise, and it is never the new block.
\<close>

theorem palloc_block_walk:
  assumes "ngx_palloc_block L sz pool w = (Some m, pool', w')"
      and "p_current pool < length (p_blocks pool)"
  shows "length (p_blocks pool') = Suc (length (p_blocks pool))
         \<and> (\<forall>k<length (p_blocks pool).
               p_blocks pool' ! k =
                 (if p_current pool \<le> k \<and> Suc k < length (p_blocks pool)
                  then (p_blocks pool ! k)\<lparr>d_failed := d_failed (p_blocks pool ! k) + 1\<rparr>
                  else p_blocks pool ! k))
         \<and> d_failed (last (p_blocks pool')) = 0
         \<and> d_last (last (p_blocks pool')) = m + sz
         \<and> p_current pool' < length (p_blocks pool)
         \<and> ((p_current pool' = p_current pool
              \<and> (\<forall>k. p_current pool \<le> k \<and> Suc k < length (p_blocks pool)
                       \<longrightarrow> d_failed (p_blocks pool ! k) \<le> 4))
            \<or> (\<exists>k. p_current pool \<le> k \<and> Suc k < length (p_blocks pool)
                   \<and> 4 < d_failed (p_blocks pool ! k)
                   \<and> (\<forall>j. k < j \<and> Suc j < length (p_blocks pool)
                            \<longrightarrow> d_failed (p_blocks pool ! j) \<le> 4)
                   \<and> p_current pool' = Suc k))"
proof -
  define bs where "bs = p_blocks pool"
  define c where "c = p_current pool"
  define tl where "tl = drop c bs"
  from assms(2) have c: "c < length bs" by (simp add: c_def bs_def)
  have ltl: "length tl = length bs - c" by (simp add: tl_def)
  have tlnth: "k < length tl \<Longrightarrow> tl ! k = bs ! (c + k)" for k
    using c by (simp add: tl_def)
  from palloc_block_Some [OF assms(1)] obtain new psize where
    blocks: "p_blocks pool' = take c bs @ fst (failed_walk c tl (Some c))
               @ [\<lparr> b_addr = new, d_last = m + sz, d_end = new + psize, d_failed = 0 \<rparr>]" and
    cur: "p_current pool' = (case snd (failed_walk c tl (Some c)) of
                               Some x \<Rightarrow> x | None \<Rightarrow> length (p_blocks pool') - 1)"
    unfolding bs_def c_def tl_def by blast
  have len: "length (p_blocks pool') = Suc (length bs)"
    using c by (simp add: blocks failed_walk_length ltl)
  have nth: "p_blocks pool' ! k =
               (if c \<le> k \<and> Suc k < length bs
                then (bs ! k)\<lparr>d_failed := d_failed (bs ! k) + 1\<rparr> else bs ! k)"
    if k: "k < length bs" for k
  proof (cases "k < c")
    case True
    then show ?thesis using c by (simp add: blocks nth_append)
  next
    case False
    then have kc: "k - c < length tl" using k by (simp add: ltl)
    have "p_blocks pool' ! k = fst (failed_walk c tl (Some c)) ! (k - c)"
      using False c k by (simp add: blocks nth_append failed_walk_length ltl)
    also have "\<dots> = (if Suc (k - c) < length tl
                      then (tl ! (k - c))\<lparr>d_failed := d_failed (tl ! (k - c)) + 1\<rparr>
                      else tl ! (k - c))"
      by (rule failed_walk_nth [OF kc])
    finally show ?thesis
      using False k c tlnth [OF kc] by (auto simp: ltl)
  qed
  have lastb: "last (p_blocks pool')
                 = \<lparr> b_addr = new, d_last = m + sz, d_end = new + psize, d_failed = 0 \<rparr>"
    by (simp add: blocks)
  from failed_walk_current [of c tl "Some c"] consider
      (same) "snd (failed_walk c tl (Some c)) = Some c"
             "\<forall>k. Suc k < length tl \<longrightarrow> d_failed (tl ! k) \<le> 4"
    | (moved) k where "Suc k < length tl" "4 < d_failed (tl ! k)"
        "\<forall>j. k < j \<and> Suc j < length tl \<longrightarrow> d_failed (tl ! j) \<le> 4"
        "snd (failed_walk c tl (Some c)) = Some (Suc (c + k))"
    by blast
  then have current:
    "p_current pool' < length bs
     \<and> ((p_current pool' = c \<and> (\<forall>k. c \<le> k \<and> Suc k < length bs \<longrightarrow> d_failed (bs ! k) \<le> 4))
        \<or> (\<exists>k. c \<le> k \<and> Suc k < length bs \<and> 4 < d_failed (bs ! k)
               \<and> (\<forall>j. k < j \<and> Suc j < length bs \<longrightarrow> d_failed (bs ! j) \<le> 4)
               \<and> p_current pool' = Suc k))"
  proof cases
    case same
    have "\<forall>k. c \<le> k \<and> Suc k < length bs \<longrightarrow> d_failed (bs ! k) \<le> 4"
    proof (intro allI impI)
      fix k assume k: "c \<le> k \<and> Suc k < length bs"
      then have "Suc (k - c) < length tl" unfolding ltl by arith
      with same(2) tlnth [of "k - c"] k show "d_failed (bs ! k) \<le> 4" by auto
    qed
    with same(1) c show ?thesis by (simp add: cur)
  next
    case (moved k)
    have "c \<le> c + k \<and> Suc (c + k) < length bs \<and> 4 < d_failed (bs ! (c + k))
          \<and> (\<forall>j. c + k < j \<and> Suc j < length bs \<longrightarrow> d_failed (bs ! j) \<le> 4)
          \<and> p_current pool' = Suc (c + k)"
    proof (intro conjI allI impI)
      fix j assume j: "c + k < j \<and> Suc j < length bs"
      then have "k < j - c \<and> Suc (j - c) < length tl" unfolding ltl by arith
      with moved(3) tlnth [of "j - c"] j show "d_failed (bs ! j) \<le> 4" by auto
    qed (use moved tlnth [of k] ltl in \<open>auto simp: cur\<close>)
    moreover from moved(1) have "Suc (c + k) < length bs" unfolding ltl by arith
    ultimately show ?thesis by (metis)
  qed
  from len nth lastb current show ?thesis
    unfolding bs_def c_def by simp
qed


text \<open>
  Seven full blocks, as after six growths: the counters are 5, 4, 3, 2, 1, 0, 0.  The
  seventh growth moves \<open>current\<close> to the second block.
\<close>

definition seven_block_pool :: ngx_pool_t where
  "seven_block_pool =
     \<lparr> p_blocks = [\<lparr> b_addr = 4096, d_last = 4216, d_end = 4224, d_failed = 5 \<rparr>,
                   \<lparr> b_addr = 4224, d_last = 4344, d_end = 4352, d_failed = 4 \<rparr>,
                   \<lparr> b_addr = 4352, d_last = 4472, d_end = 4480, d_failed = 3 \<rparr>,
                   \<lparr> b_addr = 4480, d_last = 4600, d_end = 4608, d_failed = 2 \<rparr>,
                   \<lparr> b_addr = 4608, d_last = 4728, d_end = 4736, d_failed = 1 \<rparr>,
                   \<lparr> b_addr = 4736, d_last = 4856, d_end = 4864, d_failed = 0 \<rparr>,
                   \<lparr> b_addr = 4864, d_last = 4984, d_end = 4992, d_failed = 0 \<rparr>],
       p_max = 48, p_current = 0, p_large = [], p_cleanup = [] \<rparr>"

definition seven_block_pool_grown :: ngx_pool_t where
  "seven_block_pool_grown =
     \<lparr> p_blocks = [\<lparr> b_addr = 4096, d_last = 4216, d_end = 4224, d_failed = 6 \<rparr>,
                   \<lparr> b_addr = 4224, d_last = 4344, d_end = 4352, d_failed = 5 \<rparr>,
                   \<lparr> b_addr = 4352, d_last = 4472, d_end = 4480, d_failed = 4 \<rparr>,
                   \<lparr> b_addr = 4480, d_last = 4600, d_end = 4608, d_failed = 3 \<rparr>,
                   \<lparr> b_addr = 4608, d_last = 4728, d_end = 4736, d_failed = 2 \<rparr>,
                   \<lparr> b_addr = 4736, d_last = 4856, d_end = 4864, d_failed = 1 \<rparr>,
                   \<lparr> b_addr = 4864, d_last = 4984, d_end = 4992, d_failed = 0 \<rparr>,
                   \<lparr> b_addr = 4992, d_last = 5064, d_end = 5120, d_failed = 0 \<rparr>],
       p_max = 48, p_current = 1, p_large = [], p_cleanup = [] \<rparr>"

definition seven_block_world :: world where
  "seven_block_world = \<lparr> heap_next = 4992, heap_limit = 1048576, trace = [], mem = (\<lambda>a. 0) \<rparr>"

theorem palloc_block_walk_witness:
  "length (p_blocks seven_block_pool_grown) = Suc (length (p_blocks seven_block_pool))
   \<and> d_failed (last (p_blocks seven_block_pool_grown)) = 0
   \<and> d_last (last (p_blocks seven_block_pool_grown)) = 5024 + 40
   \<and> p_current seven_block_pool_grown < length (p_blocks seven_block_pool)
   \<and> p_current seven_block_pool_grown = Suc 0
   \<and> map d_failed (p_blocks seven_block_pool_grown) = [6, 5, 4, 3, 2, 1, 0, 0]"
proof -
  have run: "ngx_palloc_block lp64 40 seven_block_pool seven_block_world =
               (Some 5024, seven_block_pool_grown,
                seven_block_world\<lparr>heap_next := 5120, trace := [Raw_memalign 16 128 4992]\<rparr>)"
    by (simp add: eval_defs seven_block_pool_def seven_block_pool_grown_def
          seven_block_world_def)
  have cur: "p_current seven_block_pool < length (p_blocks seven_block_pool)"
    by (simp add: seven_block_pool_def)
  have rest: "p_current seven_block_pool_grown = Suc 0
              \<and> map d_failed (p_blocks seven_block_pool_grown) = [6, 5, 4, 3, 2, 1, 0, 0]"
    by (simp add: seven_block_pool_grown_def)
  from palloc_block_walk [OF run cur] rest show ?thesis
    by blast
qed


section \<open>Pushing to a list\<close>













section \<open>Pushing to an array\<close>

text \<open>
  A pool of 128 bytes after fourteen allocations of 40 bytes, \<open>ngx_array_create\<close> with
  capacity 2 and element size 4, and two pushes.  The pool has eight blocks and
  \<open>current\<close> is the second one.  The array's buffer was the last thing allocated: it
  lies in the block \<open>current\<close> and ends at that block's cursor, with 8 bytes left in
  the block.  \<open>crowded_array\<close>, \<open>crowded_pool\<close> and \<open>crowded_world\<close> are the state that
  run ends in.
\<close>

definition crowded_run :: "(ngx_array_t \<times> ngx_pool_t \<times> world) option" where
  "crowded_run =
     (case ngx_create_pool lp64 128 fresh_world of
        (None, w0) \<Rightarrow> None
      | (Some pool0, w0) \<Rightarrow>
          (case run_allocs lp64 [Palloc 40, Palloc 40, Palloc 40, Palloc 40, Palloc 40,
                                 Palloc 40, Palloc 40, Palloc 40, Palloc 40, Palloc 40,
                                 Palloc 40, Palloc 40, Palloc 40, Palloc 40] pool0 w0 of
             None \<Rightarrow> None
           | Some (rs, pool1, w1) \<Rightarrow>
               (case ngx_array_create lp64 2 4 pool1 w1 of
                  (None, pool2, w2) \<Rightarrow> None
                | (Some a0, pool2, w2) \<Rightarrow>
                    (case ngx_array_push lp64 a0 pool2 w2 of
                       (None, a1, pool3, w3) \<Rightarrow> None
                     | (Some e1, a1, pool3, w3) \<Rightarrow>
                         (case ngx_array_push lp64 a1 pool3 w3 of
                            (None, a2, pool4, w4) \<Rightarrow> None
                          | (Some e2, a2, pool4, w4) \<Rightarrow> Some (a2, pool4, w4))))))"

definition crowded_array :: ngx_array_t where
  "crowded_array = \<lparr> a_addr = 5064, a_elts = 4336, a_nelts = 2, a_size = 4, a_nalloc = 2 \<rparr>"

definition crowded_pool :: ngx_pool_t where
  "crowded_pool =
     \<lparr> p_blocks = [\<lparr> b_addr = 4096, d_last = 4216, d_end = 4224, d_failed = 6 \<rparr>,
                   \<lparr> b_addr = 4224, d_last = 4344, d_end = 4352, d_failed = 5 \<rparr>,
                   \<lparr> b_addr = 4352, d_last = 4464, d_end = 4480, d_failed = 4 \<rparr>,
                   \<lparr> b_addr = 4480, d_last = 4592, d_end = 4608, d_failed = 3 \<rparr>,
                   \<lparr> b_addr = 4608, d_last = 4720, d_end = 4736, d_failed = 2 \<rparr>,
                   \<lparr> b_addr = 4736, d_last = 4848, d_end = 4864, d_failed = 1 \<rparr>,
                   \<lparr> b_addr = 4864, d_last = 4976, d_end = 4992, d_failed = 0 \<rparr>,
                   \<lparr> b_addr = 4992, d_last = 5104, d_end = 5120, d_failed = 0 \<rparr>],
       p_max = 48, p_current = 1, p_large = [], p_cleanup = [] \<rparr>"

definition crowded_world :: world where
  "crowded_world =
     \<lparr> heap_next = 5120, heap_limit = 1048576,
       trace = [Raw_memalign 16 128 4096, Raw_memalign 16 128 4224, Raw_memalign 16 128 4352,
                Raw_memalign 16 128 4480, Raw_memalign 16 128 4608, Raw_memalign 16 128 4736,
                Raw_memalign 16 128 4864, Raw_memalign 16 128 4992],
       mem = (\<lambda>a. 0) \<rparr>"

text \<open>
  Claim C9: of three pushes to an array of capacity 2 and element size 4 the third grows
  the array, in place when the buffer ends at the pool's bump cursor and the block has
  room for one more element.  The code breaks this.  \<open>ngx_array_push\<close> compares the end
  of the buffer with \<open>p->d.last\<close>, the cursor of the pool's first block, whatever block
  the pool allocates from.  In the state above the buffer is the pool's most recent
  allocation, it ends at the cursor of \<open>current\<close> and that block has room for one more
  element; the third push still takes 16 bytes from another block and moves the array
  there, with capacity 4.
\<close>

theorem array_push_ignores_current_block:
  "crowded_run = Some (crowded_array, crowded_pool, crowded_world)
   \<and> a_elts crowded_array + a_size crowded_array * a_nalloc crowded_array
       = d_last (p_blocks crowded_pool ! p_current crowded_pool)
   \<and> d_last (p_blocks crowded_pool ! p_current crowded_pool) + a_size crowded_array
       \<le> d_end (p_blocks crowded_pool ! p_current crowded_pool)
   \<and> fst (ngx_array_push lp64 crowded_array crowded_pool crowded_world) = Some 4472
   \<and> fst (snd (ngx_array_push lp64 crowded_array crowded_pool crowded_world))
       = \<lparr> a_addr = 5064, a_elts = 4464, a_nelts = 3, a_size = 4, a_nalloc = 4 \<rparr>
   \<and> map d_last (p_blocks (fst (snd (snd
         (ngx_array_push lp64 crowded_array crowded_pool crowded_world)))))
       = [4216, 4344, 4480, 4592, 4720, 4848, 4976, 5104]"
proof (intro conjI)
  show "crowded_run = Some (crowded_array, crowded_pool, crowded_world)"
    by (simp add: crowded_run_def crowded_array_def crowded_pool_def crowded_world_def
          fresh_world_def ngx_array_create_def ngx_array_push_def eval_defs)
qed (simp_all add: crowded_array_def crowded_pool_def crowded_world_def ngx_array_push_def
       eval_defs)


end
